theory Spec2Isabelle
  imports
    Main
    "HOL-Library.Char_ord"
    "HOL-Library.List_Lexorder"
    "HOL-Library.Sublist"
    "HOL-Library.Multiset"
    "HOL-Library.AList"
begin

section \<open>Strings\<close>

text \<open>
  A Python \<^verbatim>\<open>str\<close> is modelled as a \<^typ>\<open>string\<close>: the list of the bytes of its UTF-8
  encoding. Lexicographic comparison of such lists (\<^theory_text>\<open>List_Lexorder\<close> over
  \<^theory_text>\<open>Char_ord\<close>) agrees with Python's comparison of strings by code point.
  \<^verbatim>\<open>str.lower\<close> is modelled on the ASCII letters \<open>A\<close> to \<open>Z\<close>; every other byte is kept.
  The model therefore speaks about names and rules whose cased letters are ASCII.
\<close>

definition is_upper :: "char \<Rightarrow> bool" where
  "is_upper c = (65 \<le> (of_char c :: nat) \<and> (of_char c :: nat) \<le> 90)"

definition lower_char :: "char \<Rightarrow> char" where
  "lower_char c = (if is_upper c then char_of ((of_char c :: nat) + 32) else c)"

definition lower :: "string \<Rightarrow> string" where
  "lower s = map lower_char s"

definition has_upper :: "string \<Rightarrow> bool" where
  "has_upper s = (\<exists>c \<in> set s. is_upper c)"

text \<open>\<^verbatim>\<open>s.startswith(p)\<close> and \<^verbatim>\<open>s.endswith(p)\<close>.\<close>

definition startswith :: "string \<Rightarrow> string \<Rightarrow> bool" where
  "startswith s p = prefix p s"

definition endswith :: "string \<Rightarrow> string \<Rightarrow> bool" where
  "endswith s p = suffix p s"

section \<open>Ignore rules and classification\<close>

text \<open>
  \<^verbatim>\<open>self.default_ignore\<close> and \<^verbatim>\<open>self.code_extensions\<close> are Python sets of strings. A set
  is represented by a list of its elements; the functions below only test membership or
  search for some element with a property, so the order of the list is irrelevant
  (lemma \<open>should_ignore_set\<close>).
\<close>

definition default_ignore :: "string list" where
  "default_ignore =
    [''__pycache__'', ''.git'', ''.gitignore'', ''.DS_Store'', ''node_modules'', ''.env'',
     ''.venv'', ''venv'', ''env'', ''.pytest_cache'', ''.mypy_cache'', ''dist'', ''build'',
     ''.idea'', ''.vscode'', ''*.pyc'', ''*.pyo'', ''*.pyd'', ''.coverage'', ''htmlcov'',
     ''.tox'', ''.cache'', ''eggs'', ''*.egg-info'', ''logs'', ''*.log'', ''.npm'', ''.yarn'',
     ''package-lock.json'', ''yarn.lock'']"

definition code_extensions :: "string list" where
  "code_extensions =
    [''.py'', ''.js'', ''.ts'', ''.tsx'', ''.jsx'', ''.java'', ''.cpp'', ''.c'', ''.h'', ''.cs'',
     ''.php'', ''.rb'', ''.go'', ''.rs'', ''.swift'', ''.kt'', ''.scala'', ''.html'', ''.css'',
     ''.scss'', ''.sass'', ''.less'', ''.vue'', ''.svelte'', ''.sql'', ''.sh'', ''.bat'', ''.ps1'',
     ''.yml'', ''.yaml'', ''.json'', ''.xml'', ''.md'', ''.rst'', ''.txt'', ''.dockerfile'',
     ''.config'', ''.conf'']"

text \<open>
  The \<^verbatim>\<open>for pattern in ignore_patterns\<close> loop of \<^verbatim>\<open>should_ignore\<close>, with its two early
  returns; \<^verbatim>\<open>pattern[1:]\<close> is \<open>drop 1 pattern\<close> and \<^verbatim>\<open>pattern[:-1]\<close> is \<open>butlast pattern\<close>.
\<close>

fun ignore_loop :: "string \<Rightarrow> string list \<Rightarrow> bool" where
  "ignore_loop name [] = False"
| "ignore_loop name (pattern # rest) =
     (if startswith pattern ''*'' \<and> endswith name (drop 1 pattern) then True
      else if endswith pattern ''*'' \<and> startswith name (butlast pattern) then True
      else ignore_loop name rest)"

text \<open>
  \<^verbatim>\<open>should_ignore(path, ignore_patterns)\<close>. The first argument is \<^verbatim>\<open>path.name\<close>, the last
  component of the path, which is all the function reads of \<^verbatim>\<open>path\<close>.
\<close>

definition should_ignore :: "string \<Rightarrow> string list \<Rightarrow> bool" where
  "should_ignore path_name ignore_patterns =
     (let name = lower path_name in
      if name \<in> set ignore_patterns then True
      else ignore_loop name ignore_patterns)"

section \<open>Tree renderer\<close>

text \<open>
  An entry of the structural tree: the dictionaries that \<^verbatim>\<open>scan_directory\<close> appends to
  \<^verbatim>\<open>items\<close>. The key \<^verbatim>\<open>"type"\<close> is the constructor; a directory entry always carries its
  \<^verbatim>\<open>"items"\<close>, so the test \<^verbatim>\<open>"items" in item\<close> of the renderer is true for every
  directory entry of this type.
\<close>

datatype item =
  FileItem (item_name: string) (item_path: string) (item_size: nat) (item_extension: string)
| DirectoryItem (item_name: string) (item_path: string) (item_items: "item list")

text \<open>
  The connector and continuation strings of the source, as UTF-8 bytes: the terminal
  connector (U+2514, U+2500, space), the branch connector (U+251C, U+2500, space), three
  spaces, and the continuation bar (U+2502, two spaces).
\<close>

definition newline :: string where
  "newline = [CHR 0x0A]"

definition terminal_connector :: string where
  "terminal_connector = [CHR 0xE2, CHR 0x94, CHR 0x94, CHR 0xE2, CHR 0x94, CHR 0x80, CHR 0x20]"

definition branch_connector :: string where
  "branch_connector = [CHR 0xE2, CHR 0x94, CHR 0x9C, CHR 0xE2, CHR 0x94, CHR 0x80, CHR 0x20]"

definition blank_extension :: string where
  "blank_extension = [CHR 0x20, CHR 0x20, CHR 0x20]"

definition bar_extension :: string where
  "bar_extension = [CHR 0xE2, CHR 0x94, CHR 0x82, CHR 0x20, CHR 0x20]"

text \<open>
  \<^verbatim>\<open>generate_tree_view(structure, prefix, is_last)\<close>. The loop over
  \<^verbatim>\<open>enumerate(structure)\<close> is the recursion on the list: the entry at index \<open>i\<close> is the last
  one, \<^verbatim>\<open>i == len(structure) - 1\<close>, exactly when no entry follows it. \<open>tree_entry\<close> is one
  pass through the loop body. The parameter \<^verbatim>\<open>is_last\<close> is passed on and never read, as
  in the source.
\<close>

fun generate_tree_view :: "item list \<Rightarrow> string \<Rightarrow> bool \<Rightarrow> string"
  and tree_entry :: "item \<Rightarrow> string \<Rightarrow> bool \<Rightarrow> string" where
  "generate_tree_view [] pfx is_last = []"
| "generate_tree_view (item # rest) pfx is_last =
     tree_entry item pfx (rest = []) @ generate_tree_view rest pfx is_last"
| "tree_entry (FileItem n p s e) pfx is_last_item =
     pfx @ (if is_last_item then terminal_connector else branch_connector) @ n @ newline"
| "tree_entry (DirectoryItem n p items) pfx is_last_item =
     pfx @ (if is_last_item then terminal_connector else branch_connector) @ n @ newline @
     generate_tree_view items
       (pfx @ (if is_last_item then blank_extension else bar_extension)) is_last_item"

subsection \<open>Reading a rendered tree back\<close>

text \<open>
  The nesting of a structural tree: names, children and their order, without sizes, paths
  and kinds.
\<close>

datatype shape = Node string "shape list"

fun shape_of :: "item \<Rightarrow> shape" where
  "shape_of (FileItem n p s e) = Node n []"
| "shape_of (DirectoryItem n p items) = Node n (map shape_of items)"

text \<open>
  The reader of the round trip is not part of the source; it follows the specification's
  words, a re-parse by connector shape. The text is cut at line feeds. A line is a run of
  continuation units (the bar or three spaces), one per level of nesting, then a branch or
  terminal connector, then the name. Read from the last line to the first, an entry of
  depth \<open>d\<close> takes as children the entries of depth \<open>d + 1\<close> that directly follow it.
\<close>

fun split_acc :: "string \<Rightarrow> string \<Rightarrow> string list" where
  "split_acc acc [] = (if acc = [] then [] else [acc])"
| "split_acc acc (c # cs) =
     (if c = CHR 0x0A then acc # split_acc [] cs else split_acc (acc @ [c]) cs)"

definition split_lines :: "string \<Rightarrow> string list" where
  "split_lines text = split_acc [] text"

function parse_line :: "string \<Rightarrow> (nat \<times> string) option" where
  "parse_line l =
     (if prefix branch_connector l \<or> prefix terminal_connector l then Some (0, drop 7 l)
      else if prefix bar_extension l
        then map_option (\<lambda>(d, n). (Suc d, n)) (parse_line (drop 5 l))
      else if prefix blank_extension l
        then map_option (\<lambda>(d, n). (Suc d, n)) (parse_line (drop 3 l))
      else None)"
  by pat_completeness auto
termination
  by (relation "measure length")
     (auto simp: prefix_def bar_extension_def blank_extension_def)

declare parse_line.simps [simp del]

definition attach :: "nat \<times> string \<Rightarrow> (nat \<times> shape) list \<Rightarrow> (nat \<times> shape) list" where
  "attach e pending =
     (fst e, Node (snd e) (map snd (takeWhile (\<lambda>p. fst p = Suc (fst e)) pending))) #
     dropWhile (\<lambda>p. fst p = Suc (fst e)) pending"

definition parse_tree :: "string \<Rightarrow> shape list option" where
  "parse_tree text =
     (let ls = map parse_line (split_lines text) in
      if None \<in> set ls then None
      else let r = foldr attach (map the ls) [] in
        if \<forall>p \<in> set r. fst p = 0 then Some (map snd r) else None)"

text \<open>No name of the tree contains a line feed.\<close>

fun names_ok :: "item \<Rightarrow> bool" where
  "names_ok (FileItem n p s e) = (CHR 0x0A \<notin> set n)"
| "names_ok (DirectoryItem n p items) = (CHR 0x0A \<notin> set n \<and> (\<forall>i \<in> set items. names_ok i))"

text \<open>
  The entries of a tree in the order of its rendered lines, each with its depth, and the
  prefix that the renderer has built after descending through entries whose
  \<^verbatim>\<open>is_last_item\<close> flags are \<open>bs\<close>.
\<close>

fun entries :: "nat \<Rightarrow> item list \<Rightarrow> (nat \<times> string) list"
  and entry :: "nat \<Rightarrow> item \<Rightarrow> (nat \<times> string) list" where
  "entries d [] = []"
| "entries d (i # rest) = entry d i @ entries d rest"
| "entry d (FileItem n p s e) = [(d, n)]"
| "entry d (DirectoryItem n p items) = (d, n) # entries (Suc d) items"

definition units :: "bool list \<Rightarrow> string" where
  "units bs = concat (map (\<lambda>b. if b then blank_extension else bar_extension) bs)"

section \<open>Exceptions\<close>

text \<open>
  The exception classes that the source raises or catches by name. \<open>OtherException\<close>
  stands for an exception of any other class derived from \<^verbatim>\<open>Exception\<close>. The argument is
  the message. \<open>exception_mro\<close> lists the class of an exception and its base classes, as
  Python's built-in hierarchy and the \<^verbatim>\<open>json\<close> module define them: an exception is an
  instance of a class, and is caught by an \<^verbatim>\<open>except\<close> clause naming it, exactly when the
  class is in this list.
\<close>

datatype py_exception =
  FileNotFoundError string
| ValueError string
| JSONDecodeError string
| UnboundLocalError string
| OtherException string

fun exception_mro :: "py_exception \<Rightarrow> string list" where
  "exception_mro (FileNotFoundError m) =
     [''FileNotFoundError'', ''OSError'', ''Exception'', ''BaseException'']"
| "exception_mro (ValueError m) = [''ValueError'', ''Exception'', ''BaseException'']"
| "exception_mro (JSONDecodeError m) =
     [''JSONDecodeError'', ''ValueError'', ''Exception'', ''BaseException'']"
| "exception_mro (UnboundLocalError m) =
     [''UnboundLocalError'', ''NameError'', ''Exception'', ''BaseException'']"
| "exception_mro (OtherException m) = [''Exception'', ''BaseException'']"

definition isinstance :: "py_exception \<Rightarrow> string \<Rightarrow> bool" where
  "isinstance e cls = (cls \<in> set (exception_mro e))"

section \<open>File system\<close>

text \<open>
  What the scan observes of the file system. For a file: its name, the result of
  \<^verbatim>\<open>stat()\<close> (the size, or the message of the exception it raises) and the result of
  opening and reading it as text (\<open>None\<close> when that raises). For a directory: its name and
  the result of \<^verbatim>\<open>iterdir()\<close>, the entries in the order the operating system lists them,
  or \<open>None\<close> when listing raises \<^verbatim>\<open>PermissionError\<close>. An entry for which \<^verbatim>\<open>is_dir()\<close> is
  false is a file.
\<close>

record file_node =
  fn_name :: string
  fn_stat :: "string + nat"
  fn_read :: "string option"

datatype fsnode =
  FsFile file_node
| FsDir string "fsnode list option"

fun fs_name :: "fsnode \<Rightarrow> string" where
  "fs_name (FsFile f) = fn_name f"
| "fs_name (FsDir n listing) = n"

text \<open>\<^verbatim>\<open>os.path.join(a, b)\<close> of \<^verbatim>\<open>posixpath\<close>, for two arguments.\<close>

definition os_path_join :: "string \<Rightarrow> string \<Rightarrow> string" where
  "os_path_join a b =
     (if startswith b ''/'' then b
      else if a = [] \<or> endswith a ''/'' then a @ b
      else a @ ''/'' @ b)"

text \<open>The string of the path object \<^verbatim>\<open>current_path / name\<close> that \<^verbatim>\<open>iterdir()\<close> yields.\<close>

definition path_child :: "string \<Rightarrow> string \<Rightarrow> string" where
  "path_child current_path name =
     (if endswith current_path ''/'' then current_path @ name else current_path @ ''/'' @ name)"

text \<open>
  \<^verbatim>\<open>PurePath.suffix\<close>: with \<open>i\<close> the index of the last dot of the name, the suffix is
  \<^verbatim>\<open>name[i:]\<close> if \<^verbatim>\<open>0 < i < len(name) - 1\<close>, and empty otherwise.
\<close>

definition rfind :: "string \<Rightarrow> char \<Rightarrow> nat option" where
  "rfind s c =
     (if c \<in> set s then Some (length s - 1 - length (takeWhile (\<lambda>x. x \<noteq> c) (rev s)))
      else None)"

definition path_suffix :: "string \<Rightarrow> string" where
  "path_suffix name =
     (case rfind name CHR ''.'' of
        None \<Rightarrow> []
      | Some i \<Rightarrow> if 0 < i \<and> i + 1 < length name then drop i name else [])"

text \<open>
  \<^verbatim>\<open>str.splitlines()\<close> on the ASCII line boundaries: line feed, carriage return (a carriage
  return followed by a line feed is one boundary), vertical tab, form feed, and the file,
  group and record separators.
\<close>

definition is_linebreak :: "char \<Rightarrow> bool" where
  "is_linebreak c =
     (c \<in> {CHR 0x0A, CHR 0x0D, CHR 0x0B, CHR 0x0C, CHR 0x1C, CHR 0x1D, CHR 0x1E})"

fun splitlines_acc :: "string \<Rightarrow> string \<Rightarrow> string list" where
  "splitlines_acc acc [] = (if acc = [] then [] else [acc])"
| "splitlines_acc acc [c] = (if is_linebreak c then [acc] else [acc @ [c]])"
| "splitlines_acc acc (c # d # cs) =
     (if c = CHR 0x0D \<and> d = CHR 0x0A then acc # splitlines_acc [] cs
      else if is_linebreak c then acc # splitlines_acc [] (d # cs)
      else splitlines_acc (acc @ [c]) (d # cs))"

definition splitlines :: "string \<Rightarrow> string list" where
  "splitlines content = splitlines_acc [] content"

section \<open>File records\<close>

text \<open>
  The dictionary that \<^verbatim>\<open>get_file_info\<close> returns. A key that the dictionary may lack is a
  field of option type, \<open>None\<close> when the key is absent; \<open>fi_content_preview\<close> is \<open>None\<close>
  also when the key holds Python's \<^verbatim>\<open>None\<close>, which is what \<^verbatim>\<open>.get("content_preview")\<close>
  returns in both cases.
\<close>

record file_info =
  fi_name :: string
  fi_path :: string
  fi_size :: "nat option"
  fi_extension :: "string option"
  fi_is_code :: "bool option"
  fi_content_preview :: "string option"
  fi_line_count :: "nat option"
  fi_error :: "string option"

text \<open>
  \<^verbatim>\<open>get_file_info(file_path)\<close>; the first argument is \<^verbatim>\<open>str(file_path)\<close>. When \<^verbatim>\<open>stat()\<close>
  raises, the outer handler returns the dictionary of name, path and error. When opening
  or reading raises, the inner handler passes and the preview stays \<^verbatim>\<open>None\<close>.
\<close>

definition get_file_info :: "string \<Rightarrow> file_node \<Rightarrow> file_info" where
  "get_file_info path_str file_path =
     (case fn_stat file_path of
        Inl e \<Rightarrow>
          \<lparr>fi_name = fn_name file_path, fi_path = path_str, fi_size = None,
           fi_extension = None, fi_is_code = None, fi_content_preview = None,
           fi_line_count = None, fi_error = Some e\<rparr>
      | Inr st_size \<Rightarrow>
          let is_code = lower (path_suffix (fn_name file_path)) \<in> set code_extensions;
              file_info =
                \<lparr>fi_name = fn_name file_path, fi_path = path_str, fi_size = Some st_size,
                 fi_extension = Some (lower (path_suffix (fn_name file_path))),
                 fi_is_code = Some is_code, fi_content_preview = None,
                 fi_line_count = None, fi_error = None\<rparr>
          in if is_code \<and> st_size < 50000 then
               (case fn_read file_path of
                  None \<Rightarrow> file_info
                | Some content \<Rightarrow>
                    file_info
                      \<lparr>fi_content_preview :=
                         Some (if length content > 500 then take 500 content @ ''...''
                               else content),
                       fi_line_count := Some (length (splitlines content))\<rparr>)
             else file_info)"

text \<open>
  The reads that the rest of the program makes of such a dictionary:
  \<^verbatim>\<open>.get("size", 0)\<close>, \<^verbatim>\<open>.get("extension", "")\<close> and the truth value of
  \<^verbatim>\<open>.get("is_code")\<close>.
\<close>

definition get_size :: "'a file_info_scheme \<Rightarrow> nat" where
  "get_size r = (case fi_size r of None \<Rightarrow> 0 | Some n \<Rightarrow> n)"

definition get_extension :: "'a file_info_scheme \<Rightarrow> string" where
  "get_extension r = (case fi_extension r of None \<Rightarrow> [] | Some e \<Rightarrow> e)"

definition get_is_code :: "'a file_info_scheme \<Rightarrow> bool" where
  "get_is_code r = (case fi_is_code r of None \<Rightarrow> False | Some b \<Rightarrow> b)"

section \<open>Tree scanner\<close>

text \<open>
  A file record of the flat file list: the dictionary of \<^verbatim>\<open>get_file_info\<close> with the key
  \<^verbatim>\<open>"relative_path"\<close> that the scan adds.
\<close>

record file_record = file_info +
  fi_relative_path :: string

text \<open>
  \<^verbatim>\<open>file_types\<close> is a dictionary, kept as an association list in insertion order.
  \<^verbatim>\<open>languages\<close> is a Python set while the scan runs: the list of its elements in the order
  of their first insertion.
\<close>

record statistics =
  total_files :: nat
  total_directories :: nat
  code_files :: nat
  total_size :: nat
  file_types :: "(string \<times> nat) list"
  languages :: "string list"

record project_info =
  project_name :: string
  root_path :: string
  tree_structure :: "item list"
  files :: "file_record list"
  directories :: "string list"
  statistics :: statistics

definition lang_map :: "(string \<times> string) list" where
  "lang_map =
    [(''.py'', ''Python''), (''.js'', ''JavaScript''), (''.ts'', ''TypeScript''),
     (''.tsx'', ''TypeScript''), (''.jsx'', ''JavaScript''), (''.java'', ''Java''),
     (''.cpp'', ''C++''), (''.c'', ''C''), (''.cs'', ''C#''), (''.php'', ''PHP''),
     (''.rb'', ''Ruby''), (''.go'', ''Go''), (''.rs'', ''Rust''), (''.swift'', ''Swift''),
     (''.kt'', ''Kotlin''), (''.scala'', ''Scala''), (''.html'', ''HTML''), (''.css'', ''CSS''),
     (''.scss'', ''SCSS''), (''.sql'', ''SQL'')]"

text \<open>\<^verbatim>\<open>d[k] = d.get(k, 0) + 1\<close> on a dictionary in insertion order.\<close>

fun dict_increment :: "string \<Rightarrow> (string \<times> nat) list \<Rightarrow> (string \<times> nat) list" where
  "dict_increment k [] = [(k, 1)]"
| "dict_increment k ((k', v) # d) =
     (if k' = k then (k', v + 1) # d else (k', v) # dict_increment k d)"

text \<open>\<^verbatim>\<open>s.add(x)\<close> on a set kept in order of first insertion.\<close>

definition set_add :: "string \<Rightarrow> string list \<Rightarrow> string list" where
  "set_add x s = (if x \<in> set s then s else s @ [x])"

text \<open>
  The statements of the file branch of \<^verbatim>\<open>scan_directory\<close> after the count check: they
  append the file record and update size, extension, code and language statistics.
\<close>

definition record_file :: "file_info \<Rightarrow> string \<Rightarrow> project_info \<Rightarrow> project_info" where
  "record_file file_info item_relative info =
     (let stats = statistics info;
          ext = get_extension file_info;
          stats1 = stats\<lparr>total_size := total_size stats + get_size file_info\<rparr>;
          stats2 = (if ext \<noteq> [] then stats1\<lparr>file_types := dict_increment ext (file_types stats1)\<rparr>
                    else stats1);
          stats3 =
            (if get_is_code file_info then
               (let s = stats2\<lparr>code_files := code_files stats2 + 1\<rparr> in
                case map_of lang_map ext of
                  None \<Rightarrow> s
                | Some lang \<Rightarrow> s\<lparr>languages := set_add lang (languages s)\<rparr>)
             else stats2)
      in info\<lparr>files := files info @ [file_info.extend file_info \<lparr>fi_relative_path = item_relative\<rparr>],
              statistics := stats3\<rparr>)"

definition too_many_files :: py_exception where
  "too_many_files = ValueError ''Project contains more than 500 files. Aborting analysis.''"

text \<open>
  The path of an entry relative to the scan root, and the two updates of the directory
  branch and the one update of the file branch that precede the recursive call and the
  count check.
\<close>

definition item_relative_of :: "string \<Rightarrow> string \<Rightarrow> string" where
  "item_relative_of relative_path name =
     (if relative_path \<noteq> [] then os_path_join relative_path name else name)"

definition enter_directory :: "string \<Rightarrow> project_info \<Rightarrow> project_info" where
  "enter_directory item_relative info =
     info\<lparr>statistics :=
            (statistics info)\<lparr>total_directories := total_directories (statistics info) + 1\<rparr>,
          directories := directories info @ [item_relative]\<rparr>"

definition count_file :: "project_info \<Rightarrow> project_info" where
  "count_file info =
     info\<lparr>statistics := (statistics info)\<lparr>total_files := total_files (statistics info) + 1\<rparr>\<rparr>"

text \<open>A measure of a directory listing, for the termination of the scan.\<close>

fun fs_weight :: "fsnode \<Rightarrow> nat" where
  "fs_weight (FsFile f) = 1"
| "fs_weight (FsDir n None) = 1"
| "fs_weight (FsDir n (Some es)) = 2 + sum_list (map fs_weight es)"

text \<open>
  The nested function \<^verbatim>\<open>scan_directory(current_path, relative_path)\<close> of
  \<^verbatim>\<open>analyze_directory\<close>. The closure's \<^verbatim>\<open>project_info\<close> is passed in and returned;
  \<^verbatim>\<open>ignore_patterns\<close> is read only. \<open>scan_directory\<close> takes the string of
  \<^verbatim>\<open>current_path\<close> and what \<^verbatim>\<open>current_path.iterdir()\<close> gives. When the listing raises
  \<^verbatim>\<open>PermissionError\<close> the handler passes and the empty \<^verbatim>\<open>items\<close> is returned.
  \<open>scan_loop\<close> is the loop over \<^verbatim>\<open>sorted(current_path.iterdir())\<close>: the entries of one
  directory are path objects with the same parent, so they are ordered by name. The
  \<^verbatim>\<open>ValueError\<close> of the file-count check is not caught and ends the scan.
\<close>

function scan_directory ::
    "string list \<Rightarrow> string \<Rightarrow> fsnode list option \<Rightarrow> string \<Rightarrow> project_info \<Rightarrow>
     py_exception + item list \<times> project_info"
  and scan_loop ::
    "string list \<Rightarrow> string \<Rightarrow> string \<Rightarrow> fsnode list \<Rightarrow> item list \<Rightarrow> project_info \<Rightarrow>
     py_exception + item list \<times> project_info" where
  "scan_directory ignore_patterns current_path listing relative_path info =
     (case listing of
        None \<Rightarrow> Inr ([], info)
      | Some listed \<Rightarrow>
          scan_loop ignore_patterns current_path relative_path (sort_key fs_name listed) []
            info)"
| "scan_loop ignore_patterns current_path relative_path [] items info = Inr (items, info)"
| "scan_loop ignore_patterns current_path relative_path (item # rest) items info =
     (if should_ignore (fs_name item) ignore_patterns then
        scan_loop ignore_patterns current_path relative_path rest items info
      else
        let item_relative = item_relative_of relative_path (fs_name item)
        in case item of
             FsDir name listing \<Rightarrow>
               (case scan_directory ignore_patterns (path_child current_path name) listing
                       item_relative (enter_directory item_relative info) of
                  Inl e \<Rightarrow> Inl e
                | Inr (sub_items, info2) \<Rightarrow>
                    scan_loop ignore_patterns current_path relative_path rest
                      (items @ [DirectoryItem name item_relative sub_items]) info2)
           | FsFile f \<Rightarrow>
               if total_files (statistics (count_file info)) > 500 then Inl too_many_files
               else
                 let file_info = get_file_info (path_child current_path (fn_name f)) f
                 in scan_loop ignore_patterns current_path relative_path rest
                      (items @
                       [FileItem (fn_name f) item_relative (get_size file_info)
                          (get_extension file_info)])
                      (record_file file_info item_relative (count_file info)))"
  by pat_completeness auto
termination
proof -
  have ins: "sum_list (map fs_weight (insort_key k x xs)) = fs_weight x + sum_list (map fs_weight xs)"
    for k :: "fsnode \<Rightarrow> string" and x xs
    by (induction xs) auto
  have srt: "sum_list (map fs_weight (sort_key k xs)) = sum_list (map fs_weight xs)"
    for k :: "fsnode \<Rightarrow> string" and xs
    by (induction xs) (auto simp: ins)
  have pos: "0 < fs_weight x" for x
    by (cases x rule: fs_weight.cases) auto
  show ?thesis
    by (relation "measure (\<lambda>x. case x of
          Inl (ig, cp, listing, rel, info) \<Rightarrow>
            (case listing of None \<Rightarrow> 0 | Some es \<Rightarrow> Suc (sum_list (map fs_weight es)))
        | Inr (ig, cp, rel, xs, items, info) \<Rightarrow> sum_list (map fs_weight xs))")
      (auto simp: srt pos split: option.splits)
qed

declare scan_directory.simps [simp del] scan_loop.simps(2) [simp del]

text \<open>
  \<^verbatim>\<open>analyze_directory(root_path, ignore_folders)\<close>. The file system is a function from the
  path given to the string of the resolved path and the entry found there, \<open>None\<close> when
  nothing exists at the path; \<^verbatim>\<open>root.name\<close> is the name of that entry. The final
  \<^verbatim>\<open>list(...)\<close> of the set of languages enumerates the set in the order that the
  interpreter's hashing gives, which the source does not determine: \<open>list_of_set\<close> is that
  enumeration, a parameter of the model. \<open>ignore_patterns_of\<close> is the copy of the default
  rules updated with \<^verbatim>\<open>ignore_folders\<close>, an optional argument.
\<close>

definition ignore_patterns_of :: "string list option \<Rightarrow> string list" where
  "ignore_patterns_of ignore_folders =
     default_ignore @ (case ignore_folders of None \<Rightarrow> [] | Some extra \<Rightarrow> extra)"

definition analyze_directory ::
    "(string list \<Rightarrow> string list) \<Rightarrow> (string \<Rightarrow> (string \<times> fsnode) option) \<Rightarrow> string \<Rightarrow>
     string list option \<Rightarrow> py_exception + project_info" where
  "analyze_directory list_of_set fs root_path_arg ignore_folders =
     (case fs root_path_arg of
        Some (root, FsDir name listing) \<Rightarrow>
          let ignore_patterns = ignore_patterns_of ignore_folders;
              info =
                \<lparr>project_name = name, root_path = root, tree_structure = [], files = [],
                 directories = [],
                 statistics =
                   \<lparr>total_files = 0, total_directories = 0, code_files = 0, total_size = 0,
                    file_types = [], languages = []\<rparr>\<rparr>
          in (case scan_directory ignore_patterns root listing [] info of
                Inl e \<Rightarrow> Inl e
              | Inr (items, info') \<Rightarrow>
                  Inr (info'
                    \<lparr>tree_structure := items,
                     statistics :=
                       (statistics info')
                         \<lparr>languages := list_of_set (languages (statistics info'))\<rparr>\<rparr>))
      | _ \<Rightarrow>
          Inl (FileNotFoundError
                 (''Project path does not exist or is not a directory: '' @ root_path_arg)))"

subsection \<open>Notions used to state the properties of the scan\<close>

text \<open>
  The number of files that the traversal meets below a directory entry: the files that are
  not ignored and lie under directories that are neither ignored nor unreadable.
\<close>

fun kept_files :: "string list \<Rightarrow> fsnode \<Rightarrow> nat" where
  "kept_files ig (FsFile f) = (if should_ignore (fn_name f) ig then 0 else 1)"
| "kept_files ig (FsDir n None) = 0"
| "kept_files ig (FsDir n (Some es)) =
     (if should_ignore n ig then 0 else sum_list (map (kept_files ig) es))"

definition kept_in :: "string list \<Rightarrow> fsnode list option \<Rightarrow> nat" where
  "kept_in ig listing =
     (case listing of None \<Rightarrow> 0 | Some es \<Rightarrow> sum_list (map (kept_files ig) es))"

text \<open>
  The outcome of a scan that starts with \<open>info\<close> and meets \<open>k\<close> files: the overflow error
  if the running count exceeds 500, and otherwise a result whose count has grown by \<open>k\<close>.
\<close>

definition counts_ok ::
    "nat \<Rightarrow> project_info \<Rightarrow> py_exception + item list \<times> project_info \<Rightarrow> bool" where
  "counts_ok k info r =
     (if total_files (statistics info) + k > 500 then r = Inl too_many_files
      else \<exists>items info'. r = Inr (items, info') \<and>
             total_files (statistics info') = total_files (statistics info) + k)"

text \<open>
  The same directory tree with every listing enumerated in another order: \<open>f\<close> rearranges
  the entries that \<^verbatim>\<open>iterdir()\<close> yields. In a file system the entries of one directory
  have different names.
\<close>

fun reorder :: "(fsnode list \<Rightarrow> fsnode list) \<Rightarrow> fsnode \<Rightarrow> fsnode" where
  "reorder f (FsFile x) = FsFile x"
| "reorder f (FsDir n None) = FsDir n None"
| "reorder f (FsDir n (Some es)) = FsDir n (Some (f (map (reorder f) es)))"

fun distinct_names :: "fsnode \<Rightarrow> bool" where
  "distinct_names (FsFile x) = True"
| "distinct_names (FsDir n None) = True"
| "distinct_names (FsDir n (Some es)) =
     (distinct (map fs_name es) \<and> (\<forall>e \<in> set es. distinct_names e))"

text \<open>
  Example trees: a project directory with three subdirectories; the first two hold 167
  files each and the third holds \<open>k\<close> files, named \<open>a\<close>, \<open>aa\<close>, \<open>aaa\<close> and so on.
\<close>

definition plain_file :: "string \<Rightarrow> fsnode" where
  "plain_file n = FsFile \<lparr>fn_name = n, fn_stat = Inr 0, fn_read = Some []\<rparr>"

definition many_files :: "nat \<Rightarrow> fsnode list" where
  "many_files k = map (\<lambda>i. plain_file (replicate (Suc i) CHR ''a'')) [0..<k]"

definition example_tree :: "nat \<Rightarrow> fsnode list" where
  "example_tree k =
     [FsDir ''d1'' (Some (many_files 167)), FsDir ''d2'' (Some (many_files 167)),
      FsDir ''d3'' (Some (many_files k))]"

definition example_fs :: "nat \<Rightarrow> string \<Rightarrow> (string \<times> fsnode) option" where
  "example_fs k p =
     (if p = ''/proj'' then Some (''/proj'', FsDir ''proj'' (Some (example_tree k))) else None)"

text \<open>A file system in which every path resolves to a plain file.\<close>

definition file_only_fs :: "string \<Rightarrow> (string \<times> fsnode) option" where
  "file_only_fs p = Some (p, plain_file ''notes.txt'')"

text \<open>A file system with one project at \<^verbatim>\<open>/proj\<close>, and a small project tree.\<close>

definition fs_with :: "fsnode \<Rightarrow> string \<Rightarrow> (string \<times> fsnode) option" where
  "fs_with t p = (if p = ''/proj'' then Some (''/proj'', t) else None)"

definition small_tree :: fsnode where
  "small_tree =
     FsDir ''proj''
       (Some [plain_file ''b.py'',
              FsDir ''src'' (Some [plain_file ''z.js'', plain_file ''a.py'']),
              FsDir ''node_modules'' (Some [plain_file ''x.js'']),
              plain_file ''a.md''])"

section \<open>Batch description pipeline\<close>

subsection \<open>JSON values and dictionaries\<close>

text \<open>
  What \<^verbatim>\<open>json.loads\<close> returns. A JSON object is a Python dictionary, kept as an association
  list in insertion order; the parser yields each key once. A number is read by the
  pipeline only for its truth value, whether it is zero, and is modelled by an integer.
  The descriptions that the pipeline stores are such values: whatever the response holds
  under \<^verbatim>\<open>"directory_description"\<close> and in \<^verbatim>\<open>"files"\<close>.
\<close>

datatype json =
  JNull
| JBool bool
| JNumber int
| JString string
| JArray "json list"
| JObject "(string \<times> json) list"

text \<open>The truth value of a Python object, as \<^verbatim>\<open>not dir_description\<close> tests it.\<close>

fun truthy :: "json \<Rightarrow> bool" where
  "truthy JNull = False"
| "truthy (JBool b) = b"
| "truthy (JNumber n) = (n \<noteq> 0)"
| "truthy (JString s) = (s \<noteq> [])"
| "truthy (JArray xs) = (xs \<noteq> [])"
| "truthy (JObject kvs) = (kvs \<noteq> [])"

text \<open>\<^verbatim>\<open>d.get(k, default)\<close>; \<^verbatim>\<open>d[k] = v\<close> is \<open>AList.update k v d\<close>.\<close>

definition dict_get :: "('k \<times> 'v) list \<Rightarrow> 'k \<Rightarrow> 'v \<Rightarrow> 'v" where
  "dict_get d k dflt = (case map_of d k of None \<Rightarrow> dflt | Some v \<Rightarrow> v)"

text \<open>\<^verbatim>\<open>d.update(other)\<close>: the items of \<^verbatim>\<open>other\<close> are set in their order.\<close>

definition dict_update :: "('k \<times> 'v) list \<Rightarrow> ('k \<times> 'v) list \<Rightarrow> ('k \<times> 'v) list" where
  "dict_update d other = fold (\<lambda>(k, v). AList.update k v) other d"

subsection \<open>Paths and strings\<close>

text \<open>
  \<^verbatim>\<open>os.path.dirname(p)\<close> of \<^verbatim>\<open>posixpath\<close>: the head is \<^verbatim>\<open>p[:i]\<close> with \<open>i\<close> one past the last
  slash; unless it consists of slashes only, its trailing slashes are stripped.
\<close>

definition os_path_dirname :: "string \<Rightarrow> string" where
  "os_path_dirname p =
     (let head = (case rfind p CHR ''/'' of None \<Rightarrow> [] | Some i \<Rightarrow> take (i + 1) p)
      in if head \<noteq> [] \<and> head \<noteq> replicate (length head) CHR ''/''
         then rev (dropWhile (\<lambda>c. c = CHR ''/'') (rev head))
         else head)"

text \<open>\<^verbatim>\<open>sep.join(xs)\<close>.\<close>

fun join_with :: "string \<Rightarrow> string list \<Rightarrow> string" where
  "join_with sep [] = []"
| "join_with sep [x] = x"
| "join_with sep (x # y # xs) = x @ sep @ join_with sep (y # xs)"

text \<open>
  The characters that \<^verbatim>\<open>\s\<close> matches among the ASCII characters: tab, line feed,
  vertical tab, form feed, carriage return, the four separators \<open>0x1C\<close> to \<open>0x1F\<close>, and
  space.
\<close>

definition is_space :: "char \<Rightarrow> bool" where
  "is_space c =
     (let n = (of_char c :: nat) in (9 \<le> n \<and> n \<le> 13) \<or> (28 \<le> n \<and> n \<le> 32))"

text \<open>
  The first occurrence of a pattern in a text: the text before it and the text after it.
\<close>

fun split_at :: "string \<Rightarrow> string \<Rightarrow> (string \<times> string) option" where
  "split_at pat [] = (if pat = [] then Some ([], []) else None)"
| "split_at pat (c # cs) =
     (if prefix pat (c # cs) then Some ([], drop (length pat) (c # cs))
      else map_option (\<lambda>(before, after). (c # before, after)) (split_at pat cs))"

text \<open>
  \<^verbatim>\<open>extract_json_from_markdown(response)\<close>: the first group of the leftmost match of the
  pattern, three backquotes and \<^verbatim>\<open>json\<close>, white space, a shortest run of any characters,
  white space, three backquotes, searched with \<^verbatim>\<open>re.DOTALL\<close>. A match exists exactly when
  three backquotes follow the first opening fence; the greedy white space after the fence
  takes all of it, and the shortest group ends where only white space separates it from
  the first three backquotes that follow. So the group is the text between the opening
  fence and these backquotes, stripped of white space at both ends. The result is \<open>None\<close>
  when there is no match.
\<close>

definition extract_json_from_markdown :: "string \<Rightarrow> string option" where
  \<open>extract_json_from_markdown response =
     (case split_at ''```json'' response of
        None \<Rightarrow> None
      | Some (before, rest) \<Rightarrow>
          (case split_at ''```'' (dropWhile is_space rest) of
             None \<Rightarrow> None
           | Some (body, after) \<Rightarrow> Some (rev (dropWhile is_space (rev body)))))\<close>

subsection \<open>Batches\<close>

text \<open>
  \<^verbatim>\<open>range(0, n, step)\<close>, and the list comprehension
  \<^verbatim>\<open>[file_list[i : i + batch_size] for i in range(0, len(file_list), batch_size)]\<close> with
  \<^verbatim>\<open>batch_size = 10\<close>.
\<close>

definition range_step :: "nat \<Rightarrow> nat \<Rightarrow> nat list" where
  "range_step n step = map (\<lambda>k. k * step) [0..<(n + step - 1) div step]"

definition batch_size :: nat where
  "batch_size = 10"

definition file_batches :: "'a list \<Rightarrow> 'a list list" where
  "file_batches file_list =
     map (\<lambda>i. take batch_size (drop i file_list)) (range_step (length file_list) batch_size)"

subsection \<open>One batch\<close>

text \<open>
  The two collaborators are parameters of the model: \<open>llm dir_path file_list\<close> is the
  result of \<^verbatim>\<open>llm_chain.invoke\<close> for the directory and the joined file names, a text or
  the exception raised; \<open>json_loads\<close> is \<^verbatim>\<open>json.loads\<close>, the value parsed or the exception
  raised.

  The state that the loop over the batches changes: \<^verbatim>\<open>dir_description\<close>,
  \<^verbatim>\<open>file_descriptions\<close>, and whether the local variable \<^verbatim>\<open>response_content\<close> has been
  assigned. That variable is local to \<^verbatim>\<open>generate_descriptions\<close>, assigned after each
  request that returns, and read by the handler of \<^verbatim>\<open>json.JSONDecodeError\<close>; when the
  handler runs before any assignment, reading it raises \<^verbatim>\<open>UnboundLocalError\<close>, which
  leaves the function.
\<close>

type_synonym batch_state = "json \<times> (string \<times> json) list \<times> bool"

definition missing_json :: string where
  "missing_json = ''Description unavailable due to missing JSON''"

definition json_parsing_error :: string where
  "json_parsing_error = ''Description unavailable due to JSON parsing error''"

definition unexpected_error :: string where
  "unexpected_error = ''Description unavailable due to unexpected error''"

text \<open>
  The body that the three failure branches share: \<^verbatim>\<open>dir_description\<close> is assigned the
  fallback string, and every file name of the batch is mapped to it.
\<close>

definition fallback ::
    "string \<Rightarrow> string \<Rightarrow> string list \<Rightarrow> batch_state \<Rightarrow> batch_state" where
  "fallback message dir_path batch st =
     (case st of (dir_description, file_descriptions, bound) \<Rightarrow>
        (JString message,
         fold (\<lambda>filename. AList.update (os_path_join dir_path filename) (JString message))
           batch file_descriptions,
         bound))"

text \<open>The two \<^verbatim>\<open>except\<close> clauses, tried in their order.\<close>

definition handle_exception ::
    "py_exception \<Rightarrow> string \<Rightarrow> string list \<Rightarrow> batch_state \<Rightarrow> py_exception + batch_state" where
  "handle_exception e dir_path batch st =
     (if isinstance e ''JSONDecodeError'' then
        (case st of (dir_description, file_descriptions, bound) \<Rightarrow>
           if bound then Inr (fallback json_parsing_error dir_path batch st)
           else Inl (UnboundLocalError
                  ''cannot access local variable 'response_content' where it is not associated with a value''))
      else Inr (fallback unexpected_error dir_path batch st))"

text \<open>
  The statements after \<^verbatim>\<open>json.loads\<close>. \<^verbatim>\<open>dir_data.get\<close> raises \<^verbatim>\<open>AttributeError\<close> when
  the value parsed is not a dictionary, and so does \<^verbatim>\<open>.items()\<close> when what is stored
  under \<^verbatim>\<open>"files"\<close> is not one; the general handler catches both.
\<close>

definition merge_dir_data ::
    "string \<Rightarrow> string list \<Rightarrow> json \<Rightarrow> batch_state \<Rightarrow> py_exception + batch_state" where
  "merge_dir_data dir_path batch dir_data st =
     (case st of (dir_description, file_descriptions, bound) \<Rightarrow>
        (case dir_data of
           JObject d \<Rightarrow>
             let dir_description' =
                   (if \<not> truthy dir_description
                    then dict_get d ''directory_description'' (JString ''Description unavailable'')
                    else dir_description)
             in (case dict_get d ''files'' (JObject []) of
                   JObject fs \<Rightarrow>
                     Inr (dir_description',
                          fold (\<lambda>(filename, desc). AList.update (os_path_join dir_path filename) desc)
                            fs file_descriptions,
                          bound)
                 | _ \<Rightarrow>
                     handle_exception (OtherException ''AttributeError'') dir_path batch
                       (dir_description', file_descriptions, bound))
         | _ \<Rightarrow> handle_exception (OtherException ''AttributeError'') dir_path batch st))"

text \<open>One pass through the body of \<^verbatim>\<open>for batch in file_batches\<close>.\<close>

definition process_batch ::
    "(string \<Rightarrow> string \<Rightarrow> py_exception + string) \<Rightarrow> (string \<Rightarrow> py_exception + json) \<Rightarrow>
     string \<Rightarrow> string list \<Rightarrow> batch_state \<Rightarrow> py_exception + batch_state" where
  "process_batch llm json_loads dir_path batch st =
     (case st of (dir_description, file_descriptions, bound) \<Rightarrow>
        (case llm dir_path (if batch \<noteq> [] then join_with '', '' batch else ''No files'') of
           Inl e \<Rightarrow> handle_exception e dir_path batch st
         | Inr response \<Rightarrow>
             (case extract_json_from_markdown response of
                None \<Rightarrow>
                  Inr (fallback missing_json dir_path batch
                         (dir_description, file_descriptions, True))
              | Some response_content \<Rightarrow>
                  if response_content \<noteq> [] then
                    (case json_loads response_content of
                       Inl e \<Rightarrow>
                         handle_exception e dir_path batch
                           (dir_description, file_descriptions, True)
                     | Inr dir_data \<Rightarrow>
                         merge_dir_data dir_path batch dir_data
                           (dir_description, file_descriptions, True))
                  else
                    Inr (fallback missing_json dir_path batch
                           (dir_description, file_descriptions, True)))))"

fun process_batches ::
    "(string \<Rightarrow> string \<Rightarrow> py_exception + string) \<Rightarrow> (string \<Rightarrow> py_exception + json) \<Rightarrow>
     string \<Rightarrow> string list list \<Rightarrow> batch_state \<Rightarrow> py_exception + batch_state" where
  "process_batches llm json_loads dir_path [] st = Inr st"
| "process_batches llm json_loads dir_path (batch # rest) st =
     (case process_batch llm json_loads dir_path batch st of
        Inl e \<Rightarrow> Inl e
      | Inr st' \<Rightarrow> process_batches llm json_loads dir_path rest st')"

subsection \<open>All directories\<close>

record descriptions =
  desc_directories :: "(string \<times> json) list"
  desc_files :: "(string \<times> json) list"

text \<open>
  The first loop of \<^verbatim>\<open>generate_descriptions\<close>: the file records grouped by
  \<^verbatim>\<open>os.path.dirname(file_info["relative_path"]) or "root"\<close>, a dictionary of lists in
  insertion order.
\<close>

definition dir_path_of :: "file_record \<Rightarrow> string" where
  "dir_path_of file_info =
     (let d = os_path_dirname (fi_relative_path file_info) in if d \<noteq> [] then d else ''root'')"

definition group_files :: "file_record list \<Rightarrow> (string \<times> file_record list) list" where
  "group_files fs =
     fold (\<lambda>file_info files_by_dir.
             AList.update (dir_path_of file_info)
               (dict_get files_by_dir (dir_path_of file_info) [] @ [file_info]) files_by_dir)
       fs []"

text \<open>
  The directories that the second loop visits:
  \<^verbatim>\<open>list(files_by_dir.keys()) + [d for d in project_info["directories"] if d not in files_by_dir]\<close>.
\<close>

definition description_dirs :: "project_info \<Rightarrow> string list" where
  "description_dirs info =
     (let files_by_dir = group_files (files info)
      in map fst files_by_dir @
         filter (\<lambda>d. d \<notin> set (map fst files_by_dir)) (directories info))"

text \<open>\<^verbatim>\<open>[f["name"] for f in files_by_dir.get(dir_path, [])]\<close>.\<close>

definition file_list_of :: "project_info \<Rightarrow> string \<Rightarrow> string list" where
  "file_list_of info dir_path = map fi_name (dict_get (group_files (files info)) dir_path [])"

text \<open>
  The loop over the directories. Each pass starts with the empty \<^verbatim>\<open>dir_description\<close> and
  \<^verbatim>\<open>file_descriptions\<close>, runs the batches and commits both to \<^verbatim>\<open>descriptions\<close>.
\<close>

fun describe_dirs ::
    "(string \<Rightarrow> string \<Rightarrow> py_exception + string) \<Rightarrow> (string \<Rightarrow> py_exception + json) \<Rightarrow>
     project_info \<Rightarrow> string list \<Rightarrow> descriptions \<times> bool \<Rightarrow>
     py_exception + descriptions \<times> bool" where
  "describe_dirs llm json_loads info [] st = Inr st"
| "describe_dirs llm json_loads info (dir_path # rest) st =
     (case st of (descs, bound) \<Rightarrow>
        (case process_batches llm json_loads dir_path (file_batches (file_list_of info dir_path))
                (JString [], [], bound) of
           Inl e \<Rightarrow> Inl e
         | Inr (dir_description, file_descriptions, bound') \<Rightarrow>
             describe_dirs llm json_loads info rest
               (descs\<lparr>desc_directories :=
                         AList.update dir_path dir_description (desc_directories descs),
                       desc_files := dict_update (desc_files descs) file_descriptions\<rparr>,
                bound')))"

definition generate_descriptions ::
    "(string \<Rightarrow> string \<Rightarrow> py_exception + string) \<Rightarrow> (string \<Rightarrow> py_exception + json) \<Rightarrow>
     project_info \<Rightarrow> py_exception + descriptions" where
  "generate_descriptions llm json_loads info =
     (case describe_dirs llm json_loads info (description_dirs info)
             (\<lparr>desc_directories = [], desc_files = []\<rparr>, False) of
        Inl e \<Rightarrow> Inl e
      | Inr (descs, bound) \<Rightarrow> Inr descs)"

subsection \<open>Notions used to state the properties of the pipeline\<close>

text \<open>
  The block of a response that is well formed: the request returns a text with a fenced
  block that is not empty, and the parser reads it as an object that holds a string under
  \<^verbatim>\<open>"directory_description"\<close> and an object under \<^verbatim>\<open>"files"\<close>. \<open>block_of\<close> is the pair of
  these two, and \<open>None\<close> for any other response.
\<close>

definition block_of ::
    "(string \<Rightarrow> string \<Rightarrow> py_exception + string) \<Rightarrow> (string \<Rightarrow> py_exception + json) \<Rightarrow>
     string \<Rightarrow> string list \<Rightarrow> (string \<times> (string \<times> json) list) option" where
  "block_of llm json_loads dir_path batch =
     (case llm dir_path (if batch \<noteq> [] then join_with '', '' batch else ''No files'') of
        Inl e \<Rightarrow> None
      | Inr response \<Rightarrow>
          (case extract_json_from_markdown response of
             None \<Rightarrow> None
           | Some response_content \<Rightarrow>
               if response_content = [] then None
               else (case json_loads response_content of
                       Inr (JObject d) \<Rightarrow>
                         (case (map_of d ''directory_description'', map_of d ''files'') of
                            (Some (JString desc), Some (JObject fs)) \<Rightarrow> Some (desc, fs)
                          | _ \<Rightarrow> None)
                     | _ \<Rightarrow> None)))"

text \<open>
  For a directory whose batches all have well-formed blocks: the directory descriptions of
  the blocks in the order of the batches, and the entries of their \<^verbatim>\<open>"files"\<close> objects,
  each keyed by \<^verbatim>\<open>os.path.join(dir_path, filename)\<close>.
\<close>

definition block_descriptions ::
    "(string \<Rightarrow> string \<Rightarrow> py_exception + string) \<Rightarrow> (string \<Rightarrow> py_exception + json) \<Rightarrow>
     project_info \<Rightarrow> string \<Rightarrow> string list" where
  "block_descriptions llm json_loads info dir_path =
     map (\<lambda>batch. fst (the (block_of llm json_loads dir_path batch)))
       (file_batches (file_list_of info dir_path))"

definition block_entries ::
    "(string \<Rightarrow> string \<Rightarrow> py_exception + string) \<Rightarrow> (string \<Rightarrow> py_exception + json) \<Rightarrow>
     project_info \<Rightarrow> string \<Rightarrow> (string \<times> json) list" where
  "block_entries llm json_loads info dir_path =
     concat (map (\<lambda>batch.
                    map (\<lambda>(filename, desc). (os_path_join dir_path filename, desc))
                      (snd (the (block_of llm json_loads dir_path batch))))
               (file_batches (file_list_of info dir_path)))"

text \<open>
  The description adopted from a sequence of directory descriptions: the first that is not
  empty, and the empty string when there is none.
\<close>

definition adopted :: "string list \<Rightarrow> string" where
  "adopted ds = (case filter (\<lambda>d. d \<noteq> []) ds of [] \<Rightarrow> [] | d # rest \<Rightarrow> d)"

text \<open>A collaborator whose requests never raise \<^verbatim>\<open>json.JSONDecodeError\<close>.\<close>

definition never_decode_error :: "(string \<Rightarrow> string \<Rightarrow> py_exception + string) \<Rightarrow> bool" where
  "never_decode_error llm = (\<forall>d fl e. llm d fl = Inl e \<longrightarrow> \<not> isinstance e ''JSONDecodeError'')"

section \<open>Properties of the ignore rules\<close>

lemma lower_char_not_upper: "\<not> is_upper (lower_char c)"
  unfolding lower_char_def is_upper_def by (auto simp: of_char_of)

lemma lower_no_upper: "\<not> has_upper (lower s)"
  by (simp add: has_upper_def lower_def lower_char_not_upper)

lemma lower_char_idem: "lower_char (lower_char c) = lower_char c"
  using lower_char_not_upper [of c] by (simp add: lower_char_def [of "lower_char c"])

lemma lower_idem: "lower (lower s) = lower s"
  by (simp add: lower_def lower_char_idem)

lemma ignore_loop_iff:
  "ignore_loop name rules \<longleftrightarrow>
     (\<exists>p \<in> set rules. (startswith p ''*'' \<and> endswith name (drop 1 p)) \<or>
                        (endswith p ''*'' \<and> startswith name (butlast p)))"
  by (induction rules) auto

lemma should_ignore_iff:
  "should_ignore n rules \<longleftrightarrow>
     lower n \<in> set rules \<or>
     (\<exists>p \<in> set rules. (startswith p ''*'' \<and> endswith (lower n) (drop 1 p)) \<or>
                        (endswith p ''*'' \<and> startswith (lower n) (butlast p)))"
  by (simp add: should_ignore_def Let_def ignore_loop_iff)

lemma should_ignore_set:
  "set rules = set rules' \<Longrightarrow> should_ignore n rules = should_ignore n rules'"
  by (simp add: should_ignore_iff)

lemma has_upper_drop: "has_upper (drop k s) \<Longrightarrow> has_upper s"
  unfolding has_upper_def by (meson in_set_dropD)

lemma has_upper_suffix: "suffix p s \<Longrightarrow> has_upper p \<Longrightarrow> has_upper s"
  unfolding has_upper_def using set_mono_suffix by blast

lemma has_upper_prefix: "prefix p s \<Longrightarrow> has_upper p \<Longrightarrow> has_upper s"
  unfolding has_upper_def using set_mono_prefix by blast

lemma star_not_upper: "\<not> is_upper CHR ''*''"
  by (simp add: is_upper_def)

lemma upper_rule_rest:
  assumes "has_upper p"
  shows "startswith p ''*'' \<Longrightarrow> has_upper (drop 1 p)"
    and "endswith p ''*'' \<Longrightarrow> has_upper (butlast p)"
proof -
  assume "startswith p ''*''"
  then obtain r where p: "p = CHR ''*'' # r"
    by (auto simp: startswith_def prefix_def)
  with assms show "has_upper (drop 1 p)"
    by (simp add: has_upper_def star_not_upper)
next
  assume "endswith p ''*''"
  then obtain r where p: "p = r @ [CHR ''*'']"
    by (auto simp: endswith_def suffix_def)
  with assms show "has_upper (butlast p)"
    by (simp add: has_upper_def star_not_upper)
qed

lemma upper_rule_never_matches:
  assumes "has_upper p"
  shows "lower n \<noteq> p"
    and "\<not> (startswith p ''*'' \<and> endswith (lower n) (drop 1 p))"
    and "\<not> (endswith p ''*'' \<and> startswith (lower n) (butlast p))"
proof -
  show "lower n \<noteq> p"
    using assms lower_no_upper [of n] by auto
  show "\<not> (startswith p ''*'' \<and> endswith (lower n) (drop 1 p))"
    using upper_rule_rest(1) [OF assms] has_upper_suffix [of "drop 1 p" "lower n"]
      lower_no_upper [of n]
    by (auto simp: endswith_def)
  show "\<not> (endswith p ''*'' \<and> startswith (lower n) (butlast p))"
    using upper_rule_rest(2) [OF assms] has_upper_prefix [of "butlast p" "lower n"]
      lower_no_upper [of n]
    by (auto simp: startswith_def)
qed

text \<open>
  Claim C7. \<^verbatim>\<open>should_ignore\<close> lower-cases the entry name before matching, so names that
  differ only in case are treated alike. A path is ignored exactly when its lower-cased
  name is a rule, or some rule starting with \<open>*\<close> has its remainder as a suffix of the
  lower-cased name, or some rule ending with \<open>*\<close> has its remainder as a prefix of it.
  A rule set containing \<open>*.log\<close> ignores \<open>app.LOG\<close>; a rule set containing \<open>dist\<close> ignores
  every spelling of \<open>dist\<close>; the rule \<open>dist\<close> alone, and the default rules, do not ignore
  \<open>distribution\<close>.
\<close>

theorem should_ignore_case_insensitive_wildcards:
  "(lower n = lower m \<longrightarrow> should_ignore n rules = should_ignore m rules) \<and>
   (should_ignore n rules \<longleftrightarrow>
      lower n \<in> set rules \<or>
      (\<exists>p \<in> set rules. (startswith p ''*'' \<and> suffix (drop 1 p) (lower n)) \<or>
                         (endswith p ''*'' \<and> prefix (butlast p) (lower n)))) \<and>
   (''*.log'' \<in> set rules \<longrightarrow> should_ignore ''app.LOG'' rules) \<and>
   (''dist'' \<in> set rules \<and> lower n = ''dist'' \<longrightarrow> should_ignore n rules) \<and>
   \<not> should_ignore ''distribution'' [''dist''] \<and>
   \<not> should_ignore ''distribution'' default_ignore"
proof (intro conjI)
  show "lower n = lower m \<longrightarrow> should_ignore n rules = should_ignore m rules"
    by (simp add: should_ignore_def)
  show "should_ignore n rules \<longleftrightarrow>
      lower n \<in> set rules \<or>
      (\<exists>p \<in> set rules. (startswith p ''*'' \<and> suffix (drop 1 p) (lower n)) \<or>
                         (endswith p ''*'' \<and> prefix (butlast p) (lower n)))"
    using should_ignore_iff [of n rules] by (simp add: startswith_def endswith_def)
  have "lower ''app.LOG'' = ''app.log''"
    by code_simp
  moreover have "startswith ''*.log'' ''*'' \<and> endswith ''app.log'' (drop 1 ''*.log'')"
    by code_simp
  ultimately show "''*.log'' \<in> set rules \<longrightarrow> should_ignore ''app.LOG'' rules"
    unfolding should_ignore_iff by metis
  show "''dist'' \<in> set rules \<and> lower n = ''dist'' \<longrightarrow> should_ignore n rules"
    by (simp add: should_ignore_iff)
  show "\<not> should_ignore ''distribution'' [''dist'']"
    by code_simp
  show "\<not> should_ignore ''distribution'' default_ignore"
    by code_simp
qed

theorem should_ignore_case_insensitive_wildcards_witness:
  "should_ignore ''DIST'' default_ignore \<and> should_ignore ''Dist'' default_ignore \<and>
   should_ignore ''app.LOG'' default_ignore \<and>
   should_ignore ''Module.PYC'' [''*.pyc''] \<and> should_ignore ''TMP_build'' [''tmp*''] \<and>
   \<not> should_ignore ''distribution'' [''dist'']"
proof -
  have d: "''dist'' \<in> set default_ignore" "''*.log'' \<in> set default_ignore"
    by (simp_all add: default_ignore_def)
  have l: "lower ''DIST'' = ''dist''" "lower ''Dist'' = ''dist''"
    "lower ''Module.PYC'' = ''module.pyc''" "lower ''TMP_build'' = ''tmp_build''"
    by code_simp+
  have s: "startswith ''*.pyc'' ''*''" "suffix (drop 1 ''*.pyc'') ''module.pyc''"
    "endswith ''tmp*'' ''*''" "prefix (butlast ''tmp*'') ''tmp_build''"
    by code_simp+
  note t = should_ignore_case_insensitive_wildcards
  show ?thesis
    using t [of "''DIST''" "''dist''" default_ignore] t [of "''Dist''" "''dist''" default_ignore]
      t [of "''Module.PYC''" "''x''" "[''*.pyc'']"] t [of "''TMP_build''" "''x''" "[''tmp*'']"]
      d l s
    by simp
qed



section \<open>Properties of the tree renderer\<close>

lemma units_snoc: "units (bs @ [b]) = units bs @ (if b then blank_extension else bar_extension)"
  by (simp add: units_def)

lemma parse_line_connector:
  "parse_line (branch_connector @ n) = Some (0, n)"
  "parse_line (terminal_connector @ n) = Some (0, n)"
  by (simp_all add: parse_line.simps [of "branch_connector @ n"]
      parse_line.simps [of "terminal_connector @ n"])
    (simp_all add: branch_connector_def terminal_connector_def)

lemma parse_line_unit:
  "parse_line (bar_extension @ l) = map_option (\<lambda>(d, n). (Suc d, n)) (parse_line l)"
  "parse_line (blank_extension @ l) = map_option (\<lambda>(d, n). (Suc d, n)) (parse_line l)"
  by (simp_all add: parse_line.simps [of "bar_extension @ l"]
      parse_line.simps [of "blank_extension @ l"])
    (simp_all add: branch_connector_def terminal_connector_def bar_extension_def
      blank_extension_def)

lemma parse_line_units:
  "parse_line (units bs @ l) = map_option (\<lambda>(d, n). (length bs + d, n)) (parse_line l)"
proof (induction bs)
  case Nil
  show ?case by (simp add: units_def option.map_ident case_prod_unfold)
next
  case (Cons b bs)
  have "units (b # bs) @ l = (if b then blank_extension else bar_extension) @ (units bs @ l)"
    by (simp add: units_def)
  then show ?case
    using Cons by (simp add: parse_line_unit option.map_comp comp_def case_prod_unfold)
qed

lemma parse_line_entry:
  "parse_line (units bs @ (if b then terminal_connector else branch_connector) @ n) =
     Some (length bs, n)"
  by (simp add: parse_line_units parse_line_connector)

lemma split_acc_line:
  "CHR 0x0A \<notin> set l \<Longrightarrow> split_acc acc (l @ CHR 0x0A # rest) = (acc @ l) # split_acc [] rest"
  by (induction l arbitrary: acc) auto

lemma units_no_newline: "CHR 0x0A \<notin> set (units bs)"
  by (induction bs) (auto simp: units_def bar_extension_def blank_extension_def)

lemma connector_no_newline:
  "CHR 0x0A \<notin> set (if b then terminal_connector else branch_connector)"
  by (simp add: terminal_connector_def branch_connector_def)

lemma split_entry_line:
  assumes "CHR 0x0A \<notin> set n"
  shows "split_acc [] (units bs @ (if b then terminal_connector else branch_connector) @ n @
            newline @ rest) =
         (units bs @ (if b then terminal_connector else branch_connector) @ n) #
           split_acc [] rest"
proof -
  let ?l = "units bs @ (if b then terminal_connector else branch_connector) @ n"
  have "CHR 0x0A \<notin> set ?l"
    using assms units_no_newline [of bs] connector_no_newline [of b] by auto
  from split_acc_line [OF this, of "[]" rest] show ?thesis
    by (simp add: newline_def)
qed

lemma render_lines:
  "(\<forall>i \<in> set items. names_ok i) \<longrightarrow>
     map parse_line (split_acc [] (generate_tree_view items (units bs) il @ rest)) =
     map Some (entries (length bs) items) @ map parse_line (split_acc [] rest)"
  "names_ok item \<longrightarrow>
     map parse_line (split_acc [] (tree_entry item (units bs) b @ rest)) =
     map Some (entry (length bs) item) @ map parse_line (split_acc [] rest)"
proof (induction items "units bs" il and item "units bs" b arbitrary: bs rest and bs rest
    rule: generate_tree_view_tree_entry.induct)
  case (1 pfx is_last)
  show ?case by simp
next
  case (2 item rest' is_last)
  show ?case using 2(1) [OF refl] 2(2) [OF refl] by simp
next
  case (3 n p s e is_last_item)
  show ?case
    using split_entry_line [of n bs is_last_item rest] parse_line_entry [of bs is_last_item n]
    by simp
next
  case (4 n p items is_last_item)
  have u: "units bs @ (if is_last_item then blank_extension else bar_extension) =
        units (bs @ [is_last_item])"
    by (simp add: units_snoc)
  let ?c = "if is_last_item then terminal_connector else branch_connector"
  let ?sub = "generate_tree_view items (units (bs @ [is_last_item])) is_last_item @ rest"
  show ?case
  proof
    assume ok: "names_ok (DirectoryItem n p items)"
    have e: "tree_entry (DirectoryItem n p items) (units bs) is_last_item @ rest =
        units bs @ ?c @ n @ newline @ ?sub"
      by (simp add: u)
    have "map parse_line (split_acc [] (units bs @ ?c @ n @ newline @ ?sub)) =
        Some (length bs, n) # map parse_line (split_acc [] ?sub)"
      using ok split_entry_line [of n bs is_last_item ?sub]
        parse_line_entry [of bs is_last_item n]
      by simp
    also have "map parse_line (split_acc [] ?sub) =
        map Some (entries (Suc (length bs)) items) @ map parse_line (split_acc [] rest)"
      using ok 4 [OF u, of rest] by simp
    finally show "map parse_line
        (split_acc [] (tree_entry (DirectoryItem n p items) (units bs) is_last_item @ rest)) =
        map Some (entry (length bs) (DirectoryItem n p items)) @
        map parse_line (split_acc [] rest)"
      unfolding e by simp
  qed
qed

lemma takeWhile_run:
  "\<forall>x \<in> set xs. P x \<Longrightarrow> ys = [] \<or> \<not> P (hd ys) \<Longrightarrow> takeWhile P (xs @ ys) = xs"
  by (induction xs) (auto simp: takeWhile_eq_Nil_iff neq_Nil_conv)

lemma dropWhile_run:
  "\<forall>x \<in> set xs. P x \<Longrightarrow> ys = [] \<or> \<not> P (hd ys) \<Longrightarrow> dropWhile P (xs @ ys) = ys"
  by (induction xs) (auto simp: dropWhile_eq_self_iff)

lemma attach_entries:
  "(pending = [] \<or> fst (hd pending) \<le> d) \<longrightarrow>
     foldr attach (entries d items) pending = map (\<lambda>i. (d, shape_of i)) items @ pending"
  "(pending = [] \<or> fst (hd pending) \<le> d) \<longrightarrow>
     foldr attach (entry d item) pending = (d, shape_of item) # pending"
proof (induction d items and d item arbitrary: pending and pending rule: entries_entry.induct)
  case (1 d)
  show ?case by simp
next
  case (2 d i rest)
  show ?case
  proof
    assume p: "pending = [] \<or> fst (hd pending) \<le> d"
    let ?q = "map (\<lambda>i. (d, shape_of i)) rest @ pending"
    have "foldr attach (entries d rest) pending = ?q"
      using 2(2) [of pending] p by blast
    moreover have "?q = [] \<or> fst (hd ?q) \<le> d"
      using p by (cases rest) auto
    ultimately show "foldr attach (entries d (i # rest)) pending =
        map (\<lambda>i. (d, shape_of i)) (i # rest) @ pending"
      using 2(1) [of ?q] by simp
  qed
next
  case (3 d n p s e)
  show ?case
    by (cases pending) (auto simp: attach_def)
next
  case (4 d n p items)
  show ?case
  proof
    assume p: "pending = [] \<or> fst (hd pending) \<le> d"
    then have "foldr attach (entries (Suc d) items) pending =
        map (\<lambda>i. (Suc d, shape_of i)) items @ pending"
      using 4 [of pending] by auto
    moreover have "takeWhile (\<lambda>p. fst p = Suc d) (map (\<lambda>i. (Suc d, shape_of i)) items @ pending) =
        map (\<lambda>i. (Suc d, shape_of i)) items"
      using p by (intro takeWhile_run) auto
    moreover have "dropWhile (\<lambda>p. fst p = Suc d) (map (\<lambda>i. (Suc d, shape_of i)) items @ pending) =
        pending"
      using p by (intro dropWhile_run) auto
    ultimately show "foldr attach (entry d (DirectoryItem n p items)) pending =
        (d, shape_of (DirectoryItem n p items)) # pending"
      by (simp add: attach_def comp_def)
  qed
qed

lemma parse_rendered:
  assumes "\<forall>i \<in> set items. names_ok i"
  shows "parse_tree (generate_tree_view items [] il) = Some (map shape_of items)"
proof -
  have "map parse_line (split_lines (generate_tree_view items [] il)) =
      map Some (entries 0 items)"
    using assms render_lines(1) [of items "[]" il "[]"]
    by (simp add: split_lines_def units_def)
  moreover have "foldr attach (entries 0 items) [] = map (\<lambda>i. (0, shape_of i)) items"
    using attach_entries(1) [of "[]" 0 items] by simp
  ultimately show ?thesis
    by (auto simp: parse_tree_def Let_def comp_def)
qed

text \<open>
  Claim C9, as the code has it. The renderer writes names as they are, so the round trip
  holds for the trees whose names contain no line feed: for every such structural tree,
  reading the rendered text back by connector shape gives exactly the nesting and the
  sibling order of the tree.
\<close>

theorem tree_view_roundtrip:
  "\<forall>i \<in> set items. names_ok i \<Longrightarrow>
     parse_tree (generate_tree_view items [] True) = Some (map shape_of items)"
  by (rule parse_rendered)

theorem tree_view_roundtrip_witness:
  "parse_tree (generate_tree_view
      [DirectoryItem ''src'' ''src''
         [FileItem ''a.py'' ''src/a.py'' 10 ''.py'', DirectoryItem ''pkg'' ''src/pkg'' []],
       FileItem ''README.md'' ''README.md'' 3 ''.md''] [] True) =
   Some [Node ''src'' [Node ''a.py'' [], Node ''pkg'' []], Node ''README.md'' []]"
  using tree_view_roundtrip
    [of "[DirectoryItem ''src'' ''src''
           [FileItem ''a.py'' ''src/a.py'' 10 ''.py'', DirectoryItem ''pkg'' ''src/pkg'' []],
         FileItem ''README.md'' ''README.md'' 3 ''.md'']"]
  by simp

text \<open>
  The claim as stated, for every structural tree, fails. A file whose name is \<open>a\<close>, a line
  feed, three spaces, the terminal connector and \<open>b\<close> is rendered exactly like a directory
  \<open>a\<close> with the single child \<open>b\<close>: two trees of different nesting have the same text, so
  no reader can tell them apart, and the reader above returns the nesting of the
  directory.
\<close>

theorem tree_view_roundtrip_counterexample:
  "generate_tree_view
     [FileItem (''a'' @ newline @ blank_extension @ terminal_connector @ ''b'') ''x'' 0 []]
     [] True =
   generate_tree_view [DirectoryItem ''a'' ''a'' [FileItem ''b'' ''a/b'' 0 []]] [] True \<and>
   map shape_of
     [FileItem (''a'' @ newline @ blank_extension @ terminal_connector @ ''b'') ''x'' 0 []] \<noteq>
   map shape_of [DirectoryItem ''a'' ''a'' [FileItem ''b'' ''a/b'' 0 []]] \<and>
   parse_tree (generate_tree_view
     [FileItem (''a'' @ newline @ blank_extension @ terminal_connector @ ''b'') ''x'' 0 []]
     [] True) \<noteq>
   Some (map shape_of
     [FileItem (''a'' @ newline @ blank_extension @ terminal_connector @ ''b'') ''x'' 0 []])"
proof -
  let ?f = "[FileItem (''a'' @ newline @ blank_extension @ terminal_connector @ ''b'') ''x'' 0 []]"
  let ?d = "[DirectoryItem ''a'' ''a'' [FileItem ''b'' ''a/b'' 0 []]]"
  have same: "generate_tree_view ?f [] True = generate_tree_view ?d [] True"
    by simp
  have "parse_tree (generate_tree_view ?d [] True) = Some (map shape_of ?d)"
    by (rule parse_rendered) simp
  then have "parse_tree (generate_tree_view ?f [] True) = Some (map shape_of ?d)"
    using same by simp
  moreover have "map shape_of ?f \<noteq> map shape_of ?d"
    by simp
  ultimately show ?thesis
    using same by simp
qed

section \<open>Properties of file records\<close>

lemma nil_not_code: "[] \<notin> set code_extensions"
  by (simp add: code_extensions_def)

lemma get_file_info_stat_ok:
  "fn_stat f = Inr n \<Longrightarrow>
     fi_size (get_file_info p f) = Some n \<and>
     fi_extension (get_file_info p f) = Some (lower (path_suffix (fn_name f))) \<and>
     fi_is_code (get_file_info p f) = Some (lower (path_suffix (fn_name f)) \<in> set code_extensions) \<and>
     fi_error (get_file_info p f) = None"
  by (simp add: get_file_info_def Let_def split: option.splits)

lemma get_file_info_stat_fails:
  "fn_stat f = Inl e \<Longrightarrow>
     get_file_info p f =
       \<lparr>fi_name = fn_name f, fi_path = p, fi_size = None, fi_extension = None,
        fi_is_code = None, fi_content_preview = None, fi_line_count = None,
        fi_error = Some e\<rparr>"
  by (simp add: get_file_info_def)




section \<open>Properties of the tree scanner\<close>

lemma scan_loop_ignored:
  "should_ignore (fs_name item) ig \<Longrightarrow>
     scan_loop ig cp rel (item # rest) acc info = scan_loop ig cp rel rest acc info"
  by (simp add: scan_loop.simps(2))

lemma scan_loop_file:
  "\<not> should_ignore (fn_name f) ig \<Longrightarrow>
     scan_loop ig cp rel (FsFile f # rest) acc info =
       (if total_files (statistics (count_file info)) > 500 then Inl too_many_files
        else scan_loop ig cp rel rest
               (acc @ [FileItem (fn_name f) (item_relative_of rel (fn_name f))
                         (get_size (get_file_info (path_child cp (fn_name f)) f))
                         (get_extension (get_file_info (path_child cp (fn_name f)) f))])
               (record_file (get_file_info (path_child cp (fn_name f)) f)
                  (item_relative_of rel (fn_name f)) (count_file info)))"
  by (simp add: scan_loop.simps(2) Let_def)

lemma scan_loop_dir:
  "\<not> should_ignore n ig \<Longrightarrow>
     scan_loop ig cp rel (FsDir n l # rest) acc info =
       (case scan_directory ig (path_child cp n) l (item_relative_of rel n)
               (enter_directory (item_relative_of rel n) info) of
          Inl e \<Rightarrow> Inl e
        | Inr (sub_items, info2) \<Rightarrow>
            scan_loop ig cp rel rest
              (acc @ [DirectoryItem n (item_relative_of rel n) sub_items]) info2)"
  by (simp add: scan_loop.simps(2) Let_def)


lemma scan_induct [case_names Listing Done Ignored File Dir]:
  assumes listing: "\<And>ig cp listing rel info.
      (\<And>es. listing = Some es \<Longrightarrow> Q ig cp rel (sort_key fs_name es) [] info) \<Longrightarrow>
      P ig cp listing rel info"
    and done': "\<And>ig cp rel acc info. Q ig cp rel [] acc info"
    and ignored: "\<And>ig cp rel item rest acc info.
      should_ignore (fs_name item) ig \<Longrightarrow> Q ig cp rel rest acc info \<Longrightarrow>
      Q ig cp rel (item # rest) acc info"
    and file_case: "\<And>ig cp rel f rest acc info.
      \<not> should_ignore (fn_name f) ig \<Longrightarrow>
      (\<not> 500 < total_files (statistics (count_file info)) \<Longrightarrow>
         Q ig cp rel rest
           (acc @ [FileItem (fn_name f) (item_relative_of rel (fn_name f))
                     (get_size (get_file_info (path_child cp (fn_name f)) f))
                     (get_extension (get_file_info (path_child cp (fn_name f)) f))])
           (record_file (get_file_info (path_child cp (fn_name f)) f)
              (item_relative_of rel (fn_name f)) (count_file info))) \<Longrightarrow>
      Q ig cp rel (FsFile f # rest) acc info"
    and dir_case: "\<And>ig cp rel n l rest acc info.
      \<not> should_ignore n ig \<Longrightarrow>
      P ig (path_child cp n) l (item_relative_of rel n)
        (enter_directory (item_relative_of rel n) info) \<Longrightarrow>
      (\<And>sub info2.
         scan_directory ig (path_child cp n) l (item_relative_of rel n)
           (enter_directory (item_relative_of rel n) info) = Inr (sub, info2) \<Longrightarrow>
         Q ig cp rel rest (acc @ [DirectoryItem n (item_relative_of rel n) sub]) info2) \<Longrightarrow>
      Q ig cp rel (FsDir n l # rest) acc info"
  shows "P a0 a1 a2 a3 a4" and "Q b0 b1 b2 b3 b4 b5"
proof (induction a0 a1 a2 a3 a4 and b0 b1 b2 b3 b4 b5 rule: scan_directory_scan_loop.induct)
  case (1 ig cp l rel info)
  then show ?case by (rule listing)
next
  case (2 ig cp rel acc info)
  show ?case by (rule done')
next
  case (3 ig cp rel item rest acc info)
  show ?case
  proof (cases "should_ignore (fs_name item) ig")
    case True
    with 3(1) show ?thesis by (intro ignored)
  next
    case False
    show ?thesis
    proof (cases item)
      case (FsFile f)
      show ?thesis
        unfolding FsFile
        using False 3(2) [OF False refl FsFile _ refl]
        by (intro file_case) (simp_all add: FsFile)
    next
      case (FsDir n l)
      show ?thesis
        unfolding FsDir
        using False 3(3) [OF False refl FsDir] 3(4) [OF False refl FsDir _ refl]
        by (intro dir_case) (simp_all add: FsDir)
    qed
  qed
qed

lemma total_files_record_file:
  "total_files (statistics (record_file fi rel info)) = total_files (statistics info)"
  by (simp add: record_file_def Let_def split: option.splits)

lemma total_files_count_file:
  "total_files (statistics (count_file info)) = Suc (total_files (statistics info))"
  by (simp add: count_file_def)

lemma total_files_enter_directory:
  "total_files (statistics (enter_directory rel info)) = total_files (statistics info)"
  by (simp add: enter_directory_def)

lemma kept_sort: "sum_list (map (kept_files ig) (sort_key k xs)) = sum_list (map (kept_files ig) xs)"
proof -
  have "mset (map (kept_files ig) (sort_key k xs)) = mset (map (kept_files ig) xs)"
    by simp
  then show ?thesis
    by (metis sum_mset_sum_list)
qed

lemma kept_files_ignored: "should_ignore (fs_name item) ig \<Longrightarrow> kept_files ig item = 0"
  by (cases "(ig, item)" rule: kept_files.cases) auto

lemma kept_files_dir: "\<not> should_ignore n ig \<Longrightarrow> kept_files ig (FsDir n l) = kept_in ig l"
  by (cases l) (auto simp: kept_in_def)

lemma scan_counts:
  "total_files (statistics info) \<le> 500 \<longrightarrow>
     counts_ok (kept_in ig listing) info (scan_directory ig cp listing rel info)"
  "total_files (statistics info) \<le> 500 \<longrightarrow>
     counts_ok (sum_list (map (kept_files ig) xs)) info (scan_loop ig cp rel xs acc info)"
proof (induction ig cp listing rel info and ig cp rel xs acc info rule: scan_induct)
  case (Listing ig cp listing rel info)
  then show ?case
    by (cases listing) (auto simp: scan_directory.simps kept_in_def kept_sort counts_ok_def)
next
  case (Done ig cp rel acc info)
  show ?case by (simp add: counts_ok_def)
next
  case (Ignored ig cp rel item rest acc info)
  then show ?case
    by (simp add: scan_loop_ignored kept_files_ignored)
next
  case (File ig cp rel f rest acc info)
  then show ?case
    by (auto simp: scan_loop_file counts_ok_def total_files_record_file total_files_count_file)
next
  case (Dir ig cp rel n l rest acc info)
  show ?case
  proof
    assume le: "total_files (statistics info) \<le> 500"
    let ?info1 = "enter_directory (item_relative_of rel n) info"
    let ?r = "scan_directory ig (path_child cp n) l (item_relative_of rel n) ?info1"
    have c: "counts_ok (kept_in ig l) ?info1 ?r"
      using Dir(2) le by (simp add: total_files_enter_directory)
    show "counts_ok (sum_list (map (kept_files ig) (FsDir n l # rest))) info
        (scan_loop ig cp rel (FsDir n l # rest) acc info)"
    proof (cases "total_files (statistics info) + kept_in ig l > 500")
      case True
      then have "?r = Inl too_many_files"
        using c by (simp add: counts_ok_def total_files_enter_directory)
      then show ?thesis
        using True Dir(1) by (simp add: scan_loop_dir counts_ok_def kept_files_dir)
    next
      case False
      then obtain sub info2 where r: "?r = Inr (sub, info2)"
        and t: "total_files (statistics info2) = total_files (statistics info) + kept_in ig l"
        using c by (auto simp: counts_ok_def total_files_enter_directory)
      have "counts_ok (sum_list (map (kept_files ig) rest)) info2
          (scan_loop ig cp rel rest (acc @ [DirectoryItem n (item_relative_of rel n) sub]) info2)"
        using Dir(3) [OF r] False t by simp
      then show ?thesis
        using Dir(1) r t
        by (auto simp: scan_loop_dir counts_ok_def kept_files_dir add.assoc split: if_splits)
    qed
  qed
qed

lemma analyze_directory_not_dir:
  "fs p = None \<or> (\<exists>root f. fs p = Some (root, FsFile f)) \<Longrightarrow>
     analyze_directory los fs p ig =
       Inl (FileNotFoundError (''Project path does not exist or is not a directory: '' @ p))"
  by (auto simp: analyze_directory_def)

lemma analyze_directory_ceiling:
  assumes "fs p = Some (root, FsDir name listing)"
  shows "(500 < kept_in (ignore_patterns_of ig) listing \<longrightarrow>
            analyze_directory los fs p ig = Inl too_many_files) \<and>
         (kept_in (ignore_patterns_of ig) listing \<le> 500 \<longrightarrow>
            (\<exists>info. analyze_directory los fs p ig = Inr info \<and>
               total_files (statistics info) = kept_in (ignore_patterns_of ig) listing))"
proof -
  let ?info = "\<lparr>project_name = name, root_path = root, tree_structure = [], files = [],
      directories = [],
      statistics = \<lparr>total_files = 0, total_directories = 0, code_files = 0, total_size = 0,
        file_types = [], languages = []\<rparr>\<rparr>"
  have "counts_ok (kept_in (ignore_patterns_of ig) listing) ?info
      (scan_directory (ignore_patterns_of ig) root listing [] ?info)"
    using scan_counts(1) [of ?info "ignore_patterns_of ig" listing root "[]"] by simp
  then show ?thesis
    using assms by (auto simp: analyze_directory_def counts_ok_def Let_def)
qed

lemma all_a_not_ignored:
  assumes "set n \<subseteq> {CHR ''a''}"
  shows "\<not> should_ignore n default_ignore"
proof -
  have l: "lower n = n"
    using assms by (auto simp: lower_def lower_char_def is_upper_def intro!: map_idI)
  have "\<forall>p \<in> set default_ignore. \<not> endswith p ''*'' \<and> (\<exists>c \<in> set (drop 1 p). c \<noteq> CHR ''a'')"
    by code_simp
  then have "\<forall>p \<in> set default_ignore.
      p \<noteq> n \<and> \<not> (startswith p ''*'' \<and> endswith n (drop 1 p)) \<and> \<not> endswith p ''*''"
    using assms set_mono_suffix [of _ n] in_set_dropD unfolding endswith_def
    by (metis (no_types, opaque_lifting) singletonD subsetD)
  then show ?thesis
    unfolding should_ignore_iff l by blast
qed

lemma kept_many_files: "sum_list (map (kept_files default_ignore) (many_files k)) = k"
proof -
  have "kept_files default_ignore (plain_file (replicate (Suc i) CHR ''a'')) = 1" for i
  proof -
    have "set (replicate (Suc i) CHR ''a'') \<subseteq> {CHR ''a''}"
      by (simp del: replicate_Suc)
    from all_a_not_ignored [OF this] show ?thesis
      by (simp add: plain_file_def del: replicate_Suc)
  qed
  then have "map (kept_files default_ignore) (many_files k) = replicate k 1"
    by (simp add: many_files_def map_replicate_const comp_def del: replicate_Suc)
  then show ?thesis by (simp add: sum_list_replicate)
qed

lemma kept_example_tree: "kept_in (ignore_patterns_of None) (Some (example_tree k)) = 334 + k"
proof -
  have "\<not> should_ignore ''d1'' default_ignore" "\<not> should_ignore ''d2'' default_ignore"
    "\<not> should_ignore ''d3'' default_ignore"
    by code_simp+
  then show ?thesis
    by (simp add: kept_in_def ignore_patterns_of_def example_tree_def kept_many_files)
qed








lemma fs_name_reorder: "fs_name (reorder f x) = fs_name x"
  by (cases "(f, x)" rule: reorder.cases) auto

lemma sort_key_permuted:
  assumes "mset ys = mset xs" and "distinct (map k xs)"
  shows "sort_key k ys = sort_key k xs"
proof (rule sort_key_inj_key_eq)
  show "mset ys = mset (sort_key k xs)"
    using assms(1) by simp
  have "inj_on k (set xs)"
    using assms(2) by (simp add: distinct_map)
  then show "inj_on k (set ys)"
    using assms(1) by (metis set_mset_mset)
  show "sorted (map k (sort_key k xs))"
    by simp
qed

lemma insort_key_map_same:
  "(\<And>x. k (g x) = k x) \<Longrightarrow> insort_key k (g x) (map g xs) = map g (insort_key k x xs)"
  by (induction xs) auto

lemma sort_key_map_same:
  "(\<And>x. k (g x) = k x) \<Longrightarrow> sort_key k (map g xs) = map g (sort_key k xs)"
  by (induction xs) (auto simp: insort_key_map_same)

lemma sort_reordered:
  assumes perm: "\<And>xs. mset (f xs) = mset xs"
    and d: "distinct (map fs_name es)"
  shows "sort_key fs_name (f (map (reorder f) es)) = map (reorder f) (sort_key fs_name es)"
proof -
  have "distinct (map fs_name (map (reorder f) es))"
    using d by (simp add: comp_def fs_name_reorder)
  then have "sort_key fs_name (f (map (reorder f) es)) = sort_key fs_name (map (reorder f) es)"
    using perm by (intro sort_key_permuted) auto
  then show ?thesis
    by (simp add: sort_key_map_same fs_name_reorder)
qed

lemma scan_reordered:
  assumes perm: "\<And>xs. mset (f xs) = mset xs"
  shows "(\<forall>es. listing = Some es \<longrightarrow>
            distinct (map fs_name es) \<and> (\<forall>e \<in> set es. distinct_names e)) \<longrightarrow>
         scan_directory ig cp (map_option (\<lambda>es. f (map (reorder f) es)) listing) rel info =
         scan_directory ig cp listing rel info"
    and "(\<forall>e \<in> set xs. distinct_names e) \<longrightarrow>
         scan_loop ig cp rel (map (reorder f) xs) acc info = scan_loop ig cp rel xs acc info"
proof (induction ig cp listing rel info and ig cp rel xs acc info rule: scan_induct)
  case (Listing ig cp listing rel info)
  show ?case
  proof (cases listing)
    case None
    then show ?thesis by simp
  next
    case (Some es)
    show ?thesis
      using Listing [OF Some] perm
      by (auto simp: Some scan_directory.simps sort_reordered)
  qed
next
  case (Done ig cp rel acc info)
  show ?case by simp
next
  case (Ignored ig cp rel item rest acc info)
  then show ?case
    by (simp add: scan_loop_ignored fs_name_reorder)
next
  case (File ig cp rel f' rest acc info)
  then show ?case
    by (simp add: scan_loop_file)
next
  case (Dir ig cp rel n l rest acc info)
  have r: "reorder f (FsDir n l) = FsDir n (map_option (\<lambda>es. f (map (reorder f) es)) l)"
    by (cases l) simp_all
  show ?case
  proof
    assume ok: "\<forall>e \<in> set (FsDir n l # rest). distinct_names e"
    then have "\<forall>es. l = Some es \<longrightarrow>
        distinct (map fs_name es) \<and> (\<forall>e \<in> set es. distinct_names e)"
      by auto
    then have same: "scan_directory ig (path_child cp n)
          (map_option (\<lambda>es. f (map (reorder f) es)) l) (item_relative_of rel n)
          (enter_directory (item_relative_of rel n) info) =
        scan_directory ig (path_child cp n) l (item_relative_of rel n)
          (enter_directory (item_relative_of rel n) info)"
      using Dir(2) by blast
    show "scan_loop ig cp rel (map (reorder f) (FsDir n l # rest)) acc info =
        scan_loop ig cp rel (FsDir n l # rest) acc info"
      using Dir(1) Dir(3) ok
      by (auto simp: r scan_loop_dir same split: sum.splits)
  qed
qed



end
